theory Spec2Isabelle
  imports Main
begin

section \<open>JavaScript strings\<close>

text \<open>
  A JavaScript string is modelled as a \<open>string\<close>: a list of code units below 256.
  Where a string is handed to a cipher or comes back from one, the list is its UTF-8
  encoding, which \<open>Buffer.from\<close> and the cipher's \<open>'utf8'\<close> arguments produce and read.
  A value that may be \<open>undefined\<close> is a \<open>string option\<close>, and \<open>None\<close> is
  \<open>undefined\<close>. The empty string and \<open>undefined\<close> are the two falsy values of
  that type.
\<close>

definition truthy :: "string option \<Rightarrow> bool" where
  "truthy v = (case v of None \<Rightarrow> False | Some s \<Rightarrow> s \<noteq> [])"

text \<open>The idiom \<open>v || ''\<close>.\<close>

definition or_empty :: "string option \<Rightarrow> string" where
  "or_empty v = (case v of None \<Rightarrow> [] | Some s \<Rightarrow> s)"

text \<open>\<open>a || b\<close> on optional strings.\<close>

definition js_or :: "string option \<Rightarrow> string option \<Rightarrow> string option" where
  "js_or a b = (if truthy a then a else b)"

text \<open>
  \<open>String.prototype.split\<close> with a one-character separator: the empty string splits into
  one empty field, and a trailing separator leaves a trailing empty field.
\<close>

fun js_split :: "char \<Rightarrow> string \<Rightarrow> string list" where
  "js_split c [] = [[]]"
| "js_split c (x # xs) =
     (if x = c then [] # js_split c xs
      else (case js_split c xs of
              [] \<Rightarrow> [[x]]
            | w # ws \<Rightarrow> (x # w) # ws))"

text \<open>
  The white space that \<open>String.prototype.trim\<close> strips, among the code units below 256:
  tab, line feed, vertical tab, form feed, carriage return, space and no-break space.
\<close>

definition is_ws :: "char \<Rightarrow> bool" where
  "is_ws c = ((of_char c :: nat) \<in> {9, 10, 11, 12, 13, 32, 160})"

definition js_trim :: "string \<Rightarrow> string" where
  "js_trim s = rev (dropWhile is_ws (rev (dropWhile is_ws s)))"

text \<open>\<open>String.prototype.startsWith\<close>.\<close>

definition startsWith :: "string \<Rightarrow> string \<Rightarrow> bool" where
  "startsWith s p = (take (length p) s = p)"

text \<open>
  \<open>String.prototype.toLowerCase\<close> on the letters A to Z. The code only compares the
  result with lower-case ASCII words, and no character outside A to Z lower-cases to
  an ASCII letter other than \<open>k\<close>, which none of those words contains.
\<close>

definition lower_char :: "char \<Rightarrow> char" where
  "lower_char c =
     (let n = (of_char c :: nat) in if 65 \<le> n \<and> n \<le> 90 then char_of (n + 32) else c)"

definition toLowerCase :: "string \<Rightarrow> string" where
  "toLowerCase s = map lower_char s"

text \<open>\<open>s.split(',').map(k => k.trim()).filter(Boolean)\<close>\<close>

definition parse_keys :: "string \<Rightarrow> string list" where
  "parse_keys s = filter (\<lambda>k. k \<noteq> []) (map js_trim (js_split CHR '','' s))"


section \<open>The session store (features/sessions-gistless.js)\<close>

text \<open>
  The registration payload. Only the fields the engine reads are kept; each is a string
  that may be absent. The comments give the path inside the JSON body.
\<close>

record workflow_metadata =
  run_id :: "string option"                      \<comment> \<open>\<open>workflow.run_id\<close>\<close>
  wf_owner :: "string option"                    \<comment> \<open>\<open>workflow.owner\<close>\<close>
  wf_repository :: "string option"               \<comment> \<open>\<open>workflow.repository\<close>\<close>
  wf_ref :: "string option"                      \<comment> \<open>\<open>workflow.ref\<close>\<close>
  secrets_needs_input :: "string option"
  build_env :: "string option"                   \<comment> \<open>\<open>inputs.build_env\<close>\<close>
  application_namespace :: "string option"       \<comment> \<open>\<open>inputs.application_namespace\<close>\<close>
  listOfKeysToBeEncrypted :: "string option"     \<comment> \<open>\<open>inputs.listOfKeysToBeEncrypted\<close>\<close>
  encryption_key :: "string option"
  vault_url :: "string option"                   \<comment> \<open>\<open>computed_config.vault_url\<close>\<close>
  vault_engine :: "string option"                \<comment> \<open>\<open>computed_config.vault_engine\<close>\<close>
  VAULT_TOKEN :: "string option"                 \<comment> \<open>\<open>github_secrets.VAULT_TOKEN\<close>\<close>
  GIT_TOKEN :: "string option"                   \<comment> \<open>\<open>github_secrets.GIT_TOKEN\<close>\<close>
  ORG_NAME :: "string option"                    \<comment> \<open>\<open>environment.ORG_NAME\<close>\<close>
  GH_API :: "string option"                      \<comment> \<open>\<open>environment.GH_API\<close>\<close>

datatype session_status = AwaitingInput | Completed

text \<open>\<open>session.metadata\<close>: the payload spread, then \<open>createdAt\<close> and \<open>status\<close>.\<close>

record session_metadata = workflow_metadata +
  createdAt :: string
  status :: session_status

datatype key_state = KeyPending | KeyCompleted

record completed_entry =
  entry_key :: string
  entry_encryptedValue :: string
  entry_submittedBy :: string
  entry_timestamp :: string

datatype audit_entry =
    SecretSubmitted string string string nat
      \<comment> \<open>\<open>key\<close>, \<open>submittedBy\<close>, \<open>timestamp\<close>, \<open>remainingPending\<close>\<close>
  | AllSecretsCompleted string string
      \<comment> \<open>\<open>timestamp\<close>, \<open>completedBy\<close>\<close>

record session_secrets =
  pending :: "string list"
  completed :: "completed_entry list"
  key_status :: "string \<rightharpoonup> key_state"      \<comment> \<open>\<open>secrets.status\<close>\<close>

record session_vault =
  url :: "string option"
  engine :: "string option"
  lastFetched :: "string option"
  lastUpdated :: "string option"

record session_encryption =
  encKey :: "string option"
  keysToEncrypt :: "string list"

record session_workflow =
  runId :: "string option"
  owner :: "string option"
  repo :: "string option"
  ref :: "string option"

record session =
  sessionId :: string
  metadata :: session_metadata
  secrets :: session_secrets
  vault :: session_vault
  encryption :: session_encryption
  workflow :: session_workflow
  audit :: "audit_entry list"

text \<open>The two module-level maps.\<close>

record store =
  sessions :: "string \<rightharpoonup> session"
  workflowRunIdMap :: "string \<rightharpoonup> string"

definition empty_store :: store where
  "empty_store = \<lparr>sessions = Map.empty, workflowRunIdMap = Map.empty\<rparr>"

text \<open>
  \<open>createSession(metadata)\<close>. The identifier that \<open>generateSessionId\<close> draws from the
  clock and the random generator is the argument \<open>sid\<close>, and the time that
  \<open>new Date().toISOString()\<close> reads is the argument \<open>now\<close> (here and below, one reading
  for each call). The result is the created session and the store after \<open>sessions.set\<close>
  and \<open>workflowRunIdMap.set\<close>.
\<close>

definition new_session :: "string \<Rightarrow> string \<Rightarrow> workflow_metadata \<Rightarrow> session" where
  "new_session sid now md =
     (let pendingKeys = parse_keys (or_empty (secrets_needs_input md)) in
      \<lparr>sessionId = sid,
       metadata = workflow_metadata.extend md
                    \<lparr>createdAt = now, status = AwaitingInput\<rparr>,
       secrets = \<lparr>pending = pendingKeys, completed = [],
                  key_status = fold (\<lambda>k m. m(k \<mapsto> KeyPending)) pendingKeys Map.empty\<rparr>,
       vault = \<lparr>url = vault_url md, engine = vault_engine md,
                lastFetched = None, lastUpdated = None\<rparr>,
       encryption = \<lparr>encKey = encryption_key md,
                     keysToEncrypt = (case listOfKeysToBeEncrypted md of
                                        None \<Rightarrow> []
                                      | Some l \<Rightarrow> parse_keys l)\<rparr>,
       workflow = \<lparr>runId = run_id md, owner = wf_owner md,
                   repo = wf_repository md, ref = wf_ref md\<rparr>,
       audit = []\<rparr>)"

definition createSession :: "string \<Rightarrow> string \<Rightarrow> workflow_metadata \<Rightarrow> store \<Rightarrow> session \<times> store" where
  "createSession sid now md st =
     (let session = new_session sid now md;
          st1 = st\<lparr>sessions := (sessions st)(sid \<mapsto> session)\<rparr>;
          st2 = (case run_id md of
                   None \<Rightarrow> st1
                 | Some r \<Rightarrow> if r = [] then st1
                            else st1\<lparr>workflowRunIdMap := (workflowRunIdMap st1)(r \<mapsto> sid)\<rparr>)
      in (session, st2))"

definition getSession :: "store \<Rightarrow> string \<Rightarrow> session option" where
  "getSession st sid = sessions st sid"

datatype error =
    SessionNotFound                   \<comment> \<open>\<open>Error('Session not found')\<close>\<close>
  | EncryptionFailed                  \<comment> \<open>\<open>Error('Encryption failed: ...')\<close>\<close>
  | VaultFetchFailed nat string       \<comment> \<open>\<open>Error(`Vault fetch failed: ${status} ${errorText}`)\<close>\<close>
  | VaultUpdateFailed nat string      \<comment> \<open>\<open>Error(`Vault update failed: ${status} ${errorText}`)\<close>\<close>
  | NetworkError string               \<comment> \<open>a rejection of \<open>fetch\<close> or of \<open>response.json()\<close>\<close>
  | TypeError                         \<comment> \<open>a property read on \<open>undefined\<close>, \<open>Buffer.from(undefined)\<close>\<close>
  | CryptoError                       \<comment> \<open>an exception of the \<open>crypto\<close> library\<close>
  | GitTokenNotAvailable              \<comment> \<open>\<open>Error('GIT_TOKEN not available')\<close>\<close>
  | MissingWorkflowInformation        \<comment> \<open>\<open>Error('Missing workflow information')\<close>\<close>
  | WorkflowTriggerFailed nat string  \<comment> \<open>\<open>Error(`Workflow trigger failed: ${status} ${errorText}`)\<close>\<close>

text \<open>
  The transition \<open>updateSessionSecret\<close> makes on the session it has looked up: it pushes
  the completed entry, filters the key out of the pending list, marks the key, derives the
  status from the pending list, and appends the audit records.
\<close>

definition apply_secret :: "string \<Rightarrow> string \<Rightarrow> string \<Rightarrow> session \<Rightarrow> session" where
  "apply_secret k submittedBy now s =
     (let completed1 = completed (secrets s) @
            [\<lparr>entry_key = k, entry_encryptedValue = ''*****'',
              entry_submittedBy = submittedBy, entry_timestamp = now\<rparr>];
          pending1 = filter (\<lambda>x. x \<noteq> k) (pending (secrets s));
          status1 = (key_status (secrets s))(k \<mapsto> KeyCompleted);
          wasCompleted = (status (metadata s) = Completed);
          newStatus = (if length pending1 = 0 then Completed else AwaitingInput);
          audit1 = audit s @ [SecretSubmitted k submittedBy now (length pending1)];
          audit2 = (if newStatus = Completed \<and> \<not> wasCompleted
                    then audit1 @ [AllSecretsCompleted now submittedBy] else audit1)
      in s\<lparr>secrets := \<lparr>pending = pending1, completed = completed1, key_status = status1\<rparr>,
           metadata := (metadata s)\<lparr>status := newStatus\<rparr>,
           audit := audit2\<rparr>)"

text \<open>
  \<open>updateSessionSecret(sessionId, key, encryptedValue, submittedBy)\<close>. The submitted value
  is not stored: the completed entry holds the mask \<open>'*****'\<close>.
\<close>

definition updateSessionSecret ::
  "string \<Rightarrow> string \<Rightarrow> string option \<Rightarrow> string \<Rightarrow> string \<Rightarrow> store \<Rightarrow> error + store" where
  "updateSessionSecret sid k encryptedValue submittedBy now st =
     (case sessions st sid of
        None \<Rightarrow> Inl SessionNotFound
      | Some s \<Rightarrow> Inr (st\<lparr>sessions := (sessions st)(sid \<mapsto> apply_secret k submittedBy now s)\<rparr>))"


section \<open>Buffers and hexadecimal text\<close>

text \<open>
  A \<open>Buffer\<close> is a list of bytes, and so is the UTF-8 text a cipher reads or writes: both
  are \<open>string\<close>. \<open>buf.toString('hex')\<close> writes two lower-case digits for each byte.
\<close>

definition hex_digit :: "nat \<Rightarrow> char" where
  "hex_digit n = (if n < 10 then char_of (48 + n) else char_of (87 + n))"

definition to_hex :: "string \<Rightarrow> string" where
  "to_hex bs = concat (map (\<lambda>c. [hex_digit ((of_char c :: nat) div 16),
                                   hex_digit ((of_char c :: nat) mod 16)]) bs)"

definition hex_val :: "char \<Rightarrow> nat option" where
  "hex_val c =
     (let n = (of_char c :: nat) in
      if 48 \<le> n \<and> n \<le> 57 then Some (n - 48)
      else if 97 \<le> n \<and> n \<le> 102 then Some (n - 87)
      else if 65 \<le> n \<and> n \<le> 70 then Some (n - 55)
      else None)"

text \<open>
  \<open>Buffer.from(s, 'hex')\<close> decodes pairs of digits and stops at the first pair that is
  not hexadecimal; a last single character is dropped.
\<close>

fun from_hex :: "string \<Rightarrow> string" where
  "from_hex (a # b # rest) =
     (case hex_val a of
        None \<Rightarrow> []
      | Some x \<Rightarrow> (case hex_val b of
                     None \<Rightarrow> []
                   | Some y \<Rightarrow> char_of (16 * x + y) # from_hex rest))"
| "from_hex _ = []"

text \<open>
  The key buffer of both encryption paths: \<open>Buffer.from(key)\<close>, zero-padded to 32 bytes
  when shorter and cut to 32 bytes otherwise.
\<close>

definition key32 :: "string \<Rightarrow> string" where
  "key32 k = (if length k < 32 then k @ replicate (32 - length k) (char_of (0::nat))
              else take 32 k)"


section \<open>The \<open>crypto\<close> library\<close>

text \<open>
  The primitives of Node's \<open>crypto\<close> module are not part of the repository; the model
  takes them as arguments. A cipher gets the key buffer, the initialisation vector and
  the input, and \<open>None\<close> is an exception of the library.
\<close>

record crypto =
  sha1_hex :: "string \<Rightarrow> string"
    \<comment> \<open>\<open>createHash('sha1').update(x).digest('hex')\<close>\<close>
  aes_cbc_encrypt :: "string \<Rightarrow> string \<Rightarrow> string \<Rightarrow> string option"
    \<comment> \<open>\<open>aes-256-cbc\<close>: key, iv, plaintext; the ciphertext of \<open>update\<close> and \<open>final\<close>\<close>
  aes_gcm_encrypt :: "string \<Rightarrow> string \<Rightarrow> string \<Rightarrow> (string \<times> string) option"
    \<comment> \<open>\<open>aes-256-gcm\<close>: key, iv, plaintext; the ciphertext and \<open>getAuthTag()\<close>\<close>
  aes_gcm_decrypt :: "string \<Rightarrow> string \<Rightarrow> string \<Rightarrow> string \<Rightarrow> string option"
    \<comment> \<open>\<open>aes-256-gcm\<close>: key, iv, tag, ciphertext; \<open>None\<close> when \<open>createDecipheriv\<close>,
        \<open>setAuthTag\<close> or \<open>final\<close> throws\<close>


section \<open>Secret processing (features/encryption-gistless.js)\<close>

definition generateHash :: "crypto \<Rightarrow> string \<Rightarrow> string" where
  "generateHash C input = take 32 (sha1_hex C input)"

text \<open>
  \<open>encryptSecret(plainValue, encKey, secretKey)\<close>, with \<open>ek\<close> for \<open>encKey\<close>; the 16 random bytes of the
  initialisation vector are the argument \<open>iv\<close>. Every exception inside the \<open>try\<close> block is
  rethrown as \<open>'Encryption failed: ...'\<close>.
\<close>

definition encryptSecret ::
  "crypto \<Rightarrow> string \<Rightarrow> string \<Rightarrow> string option \<Rightarrow> string \<Rightarrow> error + string" where
  "encryptSecret C iv plainValue ek secretKey =
     (case ek of
        None \<Rightarrow> Inl EncryptionFailed
      | Some k \<Rightarrow>
          (case aes_cbc_encrypt C (key32 k) iv plainValue of
             None \<Rightarrow> Inl EncryptionFailed
           | Some encrypted \<Rightarrow> Inr (to_hex iv @ '':'' @ to_hex encrypted)))"

text \<open>
  \<open>processSecretValue\<close>, with \<open>ek\<close> for the parameter \<open>encKey\<close> and \<open>ks\<close> for
  \<open>keysToEncrypt\<close>. The result is a string, or \<open>undefined\<close> when the rule that hands
  back the encryption key meets a session without one.
\<close>

definition processSecretValue ::
  "crypto \<Rightarrow> string \<Rightarrow> string \<Rightarrow> string \<Rightarrow> string \<Rightarrow> string \<Rightarrow> string option \<Rightarrow> string list
     \<Rightarrow> error + string option" where
  "processSecretValue C iv secretKey plainValue buildEnvironment applicationNamespace ek ks =
     (if secretKey = ''app.key-store-password''
         \<and> (buildEnvironment = ''hodc'' \<or> buildEnvironment = ''pcdc'')
      then Inr (Some (generateHash C (applicationNamespace @ ''-jks'')))
      else if secretKey = ''app-config.secret-encryption.encryption-key''
      then Inr ek
      else if secretKey \<in> set ks
      then (case encryptSecret C iv plainValue ek secretKey of
              Inl e \<Rightarrow> Inl e
            | Inr v \<Rightarrow> Inr (Some v))
      else Inr (Some plainValue))"


section \<open>The Gist path's encryption (encryptValue, decryptValue)\<close>

text \<open>
  The module constant \<open>ENCRYPTION_KEY\<close> is \<open>process.env.ENCRYPTION_KEY ||
  process.env.JWT_SECRET\<close>, and is an argument here; \<open>Buffer.from(undefined)\<close> throws.
\<close>

definition getEncryptionKey :: "string option \<Rightarrow> error + string" where
  "getEncryptionKey K = (case K of None \<Rightarrow> Inl TypeError | Some k \<Rightarrow> Inr (key32 k))"

definition encryptValue :: "crypto \<Rightarrow> string option \<Rightarrow> string \<Rightarrow> string \<Rightarrow> error + string" where
  "encryptValue C K iv txt =
     (case getEncryptionKey K of
        Inl e \<Rightarrow> Inl EncryptionFailed
      | Inr k \<Rightarrow>
          (case aes_gcm_encrypt C k iv txt of
             None \<Rightarrow> Inl EncryptionFailed
           | Some (encrypted, authTag) \<Rightarrow>
               Inr (''enc:'' @ to_hex iv @ '':'' @ to_hex authTag @ '':'' @ to_hex encrypted)))"


text \<open>
  The \<open>try\<close> block of \<open>decryptValue\<close>: \<open>Inl\<close> is an exception thrown inside the block.
\<close>

definition decryptValue_try :: "crypto \<Rightarrow> string option \<Rightarrow> string \<Rightarrow> error + string" where
  "decryptValue_try C K encryptedText =
     (if \<not> startsWith encryptedText ''enc:'' then Inr encryptedText
      else
        (let parts = js_split CHR '':'' encryptedText in
         if length parts \<noteq> 4 then Inr encryptedText
         else
           (let iv = from_hex (parts ! 1);
                authTag = from_hex (parts ! 2);
                encrypted = parts ! 3
            in case getEncryptionKey K of
                 Inl e \<Rightarrow> Inl e
               | Inr k \<Rightarrow>
                   (case aes_gcm_decrypt C k iv authTag (from_hex encrypted) of
                      None \<Rightarrow> Inl CryptoError
                    | Some decrypted \<Rightarrow> Inr decrypted))))"

text \<open>
  \<open>decryptValue\<close>: the \<open>catch\<close> clause returns the argument. The result keeps the sum
  type, so that a call that throws would be an \<open>Inl\<close>.
\<close>

definition decryptValue :: "crypto \<Rightarrow> string option \<Rightarrow> string \<Rightarrow> error + string" where
  "decryptValue C K encryptedText =
     (case decryptValue_try C K encryptedText of
        Inl e \<Rightarrow> Inr encryptedText
      | Inr decrypted \<Rightarrow> Inr decrypted)"


section \<open>The backing store client (features/vault-operations-gistless.js)\<close>

record http_response =
  resp_status :: nat
  resp_text :: string                              \<comment> \<open>\<open>await response.text()\<close>\<close>
  resp_json :: "(string \<rightharpoonup> string) option option option"
    \<comment> \<open>\<open>await response.json()\<close>; \<open>None\<close> when the body is not JSON\<close>

text \<open>
  A Vault payload \<open>{ data: { data: {...} } }\<close>: \<open>None\<close> has no \<open>data\<close>, \<open>Some None\<close> has
  \<open>data\<close> without \<open>data.data\<close>, and \<open>Some (Some m)\<close> carries the secrets \<open>m\<close>.
\<close>

type_synonym vault_payload = "(string \<rightharpoonup> string) option option"

definition payload_secrets :: "vault_payload \<Rightarrow> (string \<rightharpoonup> string)" where
  "payload_secrets p = (case p of Some (Some m) \<Rightarrow> m | _ \<Rightarrow> Map.empty)"

text \<open>\<open>response.ok\<close>\<close>

definition ok :: "http_response \<Rightarrow> bool" where
  "ok r = (200 \<le> resp_status r \<and> resp_status r < 300)"

text \<open>
  \<open>fetchVaultPayload\<close>, as a function of what \<open>fetch(vaultUrl, GET)\<close> settles to: \<open>Inl\<close>
  is a rejection, \<open>Inr\<close> the response.
\<close>

definition fetchVaultPayload :: "error + http_response \<Rightarrow> error + vault_payload" where
  "fetchVaultPayload outcome =
     (case outcome of
        Inl e \<Rightarrow> Inl e
      | Inr response \<Rightarrow>
          if \<not> ok response then
            (if resp_status response = 404 then Inr (Some (Some Map.empty))
             else Inl (VaultFetchFailed (resp_status response) (resp_text response)))
          else
            (case resp_json response of
               None \<Rightarrow> Inl (NetworkError ''invalid json'')
             | Some j \<Rightarrow> Inr j))"

text \<open>
  \<open>updateVaultPayload\<close>, as a function of what the POST settles to. The body it sends is
  \<open>{ data: payload.data || payload }\<close>.
\<close>

definition updateVaultPayload :: "error + http_response \<Rightarrow> error + vault_payload" where
  "updateVaultPayload outcome =
     (case outcome of
        Inl e \<Rightarrow> Inl e
      | Inr response \<Rightarrow>
          if \<not> ok response
          then Inl (VaultUpdateFailed (resp_status response) (resp_text response))
          else (case resp_json response of
                  None \<Rightarrow> Inl (NetworkError ''invalid json'')
                | Some result \<Rightarrow> Inr result))"

text \<open>
  The requests that change something outside the process. A handler returns the list of
  those it has sent.
\<close>

record dispatch_payload =
  dp_metadata :: session_metadata
  dp_completedAt :: string
  dp_total :: nat                  \<comment> \<open>\<open>secrets_stats.total\<close>\<close>
  dp_completed :: nat              \<comment> \<open>\<open>secrets_stats.completed\<close>\<close>
  dp_pending :: nat                \<comment> \<open>\<open>secrets_stats.pending\<close>\<close>
  dp_audit :: "audit_entry list"

record dispatch_request =
  dr_url :: string
  dr_token :: string
  dr_ref :: string
  dr_payload :: dispatch_payload   \<comment> \<open>\<open>inputs.payload\<close>, before \<open>JSON.stringify\<close>\<close>

datatype effect =
    VaultPost string string "string \<rightharpoonup> string"   \<comment> \<open>location, token, the secrets sent\<close>
  | Dispatch dispatch_request

text \<open>
  What the process sees of the outside: the answers to its requests, the team rules of
  \<open>config/secret-teams-gistless.json\<close> (pattern and \<open>teamSlug\<close>, in file order), and two
  variables of \<open>process.env\<close>.
\<close>

record env =
  lib :: crypto
  vault_get :: "string \<Rightarrow> string \<Rightarrow> error + http_response"
  vault_post :: "string \<Rightarrow> string \<Rightarrow> (string \<rightharpoonup> string) \<Rightarrow> error + http_response"
  membership :: "string \<Rightarrow> string \<Rightarrow> string \<Rightarrow> string \<Rightarrow> error + bool"
    \<comment> \<open>\<open>checkUserTeamMembership(accessToken, orgName, teamSlug, username)\<close>\<close>
  github_post :: "dispatch_request \<Rightarrow> error + http_response"
  secretTeamConfig :: "(string \<times> string) list"
  env_ORG_NAME :: "string option"
  env_GH_BASE_URL :: "string option"

text \<open>
  \<open>updateSingleVaultKey\<close>: fetch the current payload, set the key, push the payload back.
\<close>

definition updateSingleVaultKey ::
  "env \<Rightarrow> string \<Rightarrow> string \<Rightarrow> string \<Rightarrow> string \<Rightarrow> (error + vault_payload) \<times> effect list" where
  "updateSingleVaultKey E vaultUrl vaultToken k v =
     (case fetchVaultPayload (vault_get E vaultUrl vaultToken) of
        Inl e \<Rightarrow> (Inl e, [])
      | Inr currentPayload \<Rightarrow>
          (let secrets1 = (payload_secrets currentPayload)(k \<mapsto> v)
           in (updateVaultPayload (vault_post E vaultUrl vaultToken secrets1),
               [VaultPost vaultUrl vaultToken secrets1])))"


section \<open>Team access (features/team-access-gistless.js)\<close>

record user =
  login :: string
  accessToken :: string

text \<open>\<open>String.prototype.includes\<close>\<close>

fun js_includes :: "string \<Rightarrow> string \<Rightarrow> bool" where
  "js_includes [] p = (p = [])"
| "js_includes (x # xs) p = (startsWith (x # xs) p \<or> js_includes xs p)"

text \<open>
  \<open>resolveTeamForSecret\<close>: the first rule other than \<open>"*"\<close> whose lower-cased pattern
  occurs in the lower-cased key, and the \<open>"*"\<close> rule otherwise. Reading \<open>teamSlug\<close> of a
  missing \<open>"*"\<close> rule throws.
\<close>

fun first_match :: "string \<Rightarrow> (string \<times> string) list \<Rightarrow> string option" where
  "first_match keyLower [] = None"
| "first_match keyLower ((pattern, team) # rest) =
     (if pattern \<noteq> ''*'' \<and> js_includes keyLower (toLowerCase pattern) then Some team
      else first_match keyLower rest)"

definition resolveTeamForSecret :: "(string \<times> string) list \<Rightarrow> string \<Rightarrow> error + string" where
  "resolveTeamForSecret cfg k =
     (case first_match (toLowerCase k) cfg of
        Some team \<Rightarrow> Inr team
      | None \<Rightarrow> (case map_of cfg ''*'' of
                   None \<Rightarrow> Inl TypeError
                 | Some team \<Rightarrow> Inr team))"

text \<open>
  \<open>verifyKeyAccess\<close>: no organisation name gives \<open>false\<close>, and so does an exception of
  the membership check.
\<close>

definition verifyKeyAccess :: "env \<Rightarrow> user \<Rightarrow> string \<Rightarrow> session \<Rightarrow> error + bool" where
  "verifyKeyAccess E u k s =
     (case resolveTeamForSecret (secretTeamConfig E) k of
        Inl e \<Rightarrow> Inl e
      | Inr teamSlug \<Rightarrow>
          (let orgName = js_or (ORG_NAME (metadata s)) (env_ORG_NAME E) in
           if \<not> truthy orgName then Inr False
           else (case membership E (accessToken u) (or_empty orgName) teamSlug (login u) of
                   Inl e \<Rightarrow> Inr False
                 | Inr hasTeamAccess \<Rightarrow> Inr hasTeamAccess)))"


section \<open>The downstream trigger (features/workflow-trigger-gistless.js)\<close>

datatype trigger_result =
    Skipped string     \<comment> \<open>\<open>{ ok: true, skipped: true, reason }\<close>\<close>
  | Triggered          \<comment> \<open>the dispatch was accepted\<close>

text \<open>\<open>session.metadata.inputs?.build_env?.toLowerCase() || ''\<close>\<close>

definition buildEnv_of :: "session \<Rightarrow> string" where
  "buildEnv_of s = (case build_env (metadata s) of None \<Rightarrow> [] | Some b \<Rightarrow> toLowerCase b)"

definition updatedPayload :: "string \<Rightarrow> session \<Rightarrow> dispatch_payload" where
  "updatedPayload now s =
     \<lparr>dp_metadata = (metadata s)\<lparr>status := Completed\<rparr>,
      dp_completedAt = now,
      dp_total = length (completed (secrets s)) + length (pending (secrets s)),
      dp_completed = length (completed (secrets s)),
      dp_pending = 0,
      dp_audit = audit s\<rparr>"

text \<open>
  \<open>triggerDownstreamWorkflow\<close>, with the requests it has sent. In the source the text of
  the function stops after the log lines that follow the check of the response (the
  rest is commented out); \<open>Triggered\<close> stands for reaching that point.
\<close>

definition triggerDownstreamWorkflow ::
  "env \<Rightarrow> string \<Rightarrow> session \<Rightarrow> (error + trigger_result) \<times> effect list" where
  "triggerDownstreamWorkflow E now s =
     (let buildEnv = buildEnv_of s;
          gitToken = GIT_TOKEN (metadata s)
      in if \<not> truthy gitToken then (Inl GitTokenNotAvailable, [])
         else if \<not> (buildEnv = ''dev'' \<or> buildEnv = ''sit'')
         then (Inr (Skipped (''No downstream workflow configured for build_env='' @ buildEnv)), [])
         else
           (let workflowFile = ''main.yml'';
                baseUrl = js_or (GH_API (metadata s)) (env_GH_BASE_URL E)
            in if \<not> truthy baseUrl then (Inl MissingWorkflowInformation, [])
               else
                 (let request =
                        \<lparr>dr_url = or_empty baseUrl @ ''/repos/Microservices/ap-secondhalf''
                                   @ ''/actions/workflows/'' @ workflowFile @ ''/dispatches'',
                         dr_token = or_empty gitToken,
                         dr_ref = ''main'',
                         dr_payload = updatedPayload now s\<rparr>
                  in (case github_post E request of
                        Inl e \<Rightarrow> Inl e
                      | Inr response \<Rightarrow>
                          if \<not> ok response
                          then Inl (WorkflowTriggerFailed (resp_status response)
                                      (resp_text response))
                          else Inr Triggered,
                      [Dispatch request]))))"


section \<open>The request handlers (index.js)\<close>

datatype reply_body =
    ErrorBody string                          \<comment> \<open>\<open>{ error }\<close>\<close>
  | NotAuthorized string                      \<comment> \<open>\<open>{ error: 'User not authorized for this secret key', key }\<close>\<close>
  | SessionCreated string nat                 \<comment> \<open>\<open>sessionId\<close>, \<open>pendingSecrets\<close>\<close>
  | SecretUpdated string "string list" bool   \<comment> \<open>\<open>key\<close>, \<open>pendingKeys\<close>, \<open>allCompleted\<close>\<close>

datatype reply = Reply nat reply_body         \<comment> \<open>the HTTP status and the JSON body\<close>

text \<open>\<open>POST /api/sessions\<close>, after the pipeline token has been verified.\<close>

definition register_session :: "string \<Rightarrow> string \<Rightarrow> workflow_metadata \<Rightarrow> store \<Rightarrow> reply \<times> store" where
  "register_session sid now md st =
     (if \<not> truthy (run_id md) \<or> \<not> truthy (secrets_needs_input md)
      then (Reply 400 (ErrorBody ''Missing required fields: workflow.run_id or secrets_needs_input''),
            st)
      else (let (session, st1) = createSession sid now md st
            in (Reply 200 (SessionCreated (sessionId session)
                             (length (pending (secrets session)))), st1)))"

text \<open>
  \<open>POST /api/sessions/:sessionId/secrets\<close>, after the user's session token has been
  verified. \<open>k\<close> and \<open>v\<close> are \<open>req.body.key\<close> and \<open>req.body.value\<close>. An exception inside the
  handler is answered with status 500. The handler reads the current Vault payload and
  sets the key in its copy, which it only logs: the call of \<open>updateSingleVaultKey\<close> is
  commented out in the source, so no request is sent to change the Vault.
\<close>

definition server_error :: reply where
  "server_error = Reply 500 (ErrorBody ''Failed to submit secret'')"

definition submit_secret ::
  "env \<Rightarrow> string \<Rightarrow> string \<Rightarrow> string \<Rightarrow> string option \<Rightarrow> string option \<Rightarrow> user \<Rightarrow> store
     \<Rightarrow> reply \<times> store \<times> effect list" where
  "submit_secret E iv now sid k v u st =
     (if \<not> truthy k \<or> \<not> truthy v
      then (Reply 400 (ErrorBody ''Missing key or value''), st, [])
      else
        (case getSession st sid of
           None \<Rightarrow> (Reply 404 (ErrorBody ''Session not found''), st, [])
         | Some s \<Rightarrow>
             if or_empty k \<notin> set (pending (secrets s))
             then (Reply 400 (ErrorBody ''Key already processed or not in pending list''), st, [])
             else
               (case verifyKeyAccess E u (or_empty k) s of
                  Inl e \<Rightarrow> (server_error, st, [])
                | Inr hasAccess \<Rightarrow>
                    if \<not> hasAccess then (Reply 403 (NotAuthorized (or_empty k)), st, [])
                    else
                      (case processSecretValue (lib E) iv (or_empty k) (or_empty v)
                              (buildEnv_of s) (or_empty (application_namespace (metadata s)))
                              (encKey (encryption s)) (keysToEncrypt (encryption s)) of
                         Inl e \<Rightarrow> (server_error, st, [])
                       | Inr processedValue \<Rightarrow>
                           (let vaultUrl = url (vault s);
                                vaultToken = VAULT_TOKEN (metadata s)
                            in if \<not> truthy vaultUrl \<or> \<not> truthy vaultToken
                               then (Reply 500 (ErrorBody ''Vault configuration missing''), st, [])
                               else
                                 (case fetchVaultPayload
                                         (vault_get E (or_empty vaultUrl) (or_empty vaultToken)) of
                                    Inl e \<Rightarrow> (server_error, st, [])
                                  | Inr currentPayload \<Rightarrow>
                                      (case updateSessionSecret sid (or_empty k) processedValue
                                              (login u) now st of
                                         Inl e \<Rightarrow> (server_error, st, [])
                                       | Inr st1 \<Rightarrow>
                                           (case getSession st1 sid of
                                              None \<Rightarrow> (server_error, st1, [])
                                            | Some updatedSession \<Rightarrow>
                                                (let allCompleted =
                                                       (status (metadata updatedSession) = Completed)
                                                 in (Reply 200
                                                       (SecretUpdated (or_empty k)
                                                          (pending (secrets updatedSession))
                                                          allCompleted),
                                                     st1,
                                                     if allCompleted
                                                     then snd (triggerDownstreamWorkflow E now
                                                                 updatedSession)
                                                     else []))))))))))"


section \<open>The two halves of a submission\<close>

text \<open>
  The submission handler is an \<open>async\<close> function. It reads the store when the request
  arrives (the lookup and the pending check), then waits three times: for
  \<open>verifyKeyAccess\<close>, for the dynamic \<open>import\<close> and for \<open>fetchVaultPayload\<close>. Other
  requests are handled while it waits, and no lock is held. When it resumes it calls
  \<open>updateSessionSecret\<close> on the store as it is by then. The fields of the session it reads
  in between (the build environment, the encryption settings, the Vault location)
  are never written after \<open>createSession\<close>.

  \<open>submit_admit\<close> is the handler up to the last wait: it answers at once, or hands on what
  the second half needs. \<open>submit_commit\<close> is the handler from there to its answer.
\<close>

record admitted =
  adm_env :: env
  adm_sid :: string
  adm_key :: string
  adm_value :: "string option"      \<comment> \<open>\<open>processedValue\<close>\<close>
  adm_login :: string

definition submit_admit ::
  "env \<Rightarrow> string \<Rightarrow> string \<Rightarrow> string option \<Rightarrow> string option \<Rightarrow> user \<Rightarrow> store
     \<Rightarrow> reply + admitted" where
  "submit_admit E iv sid k v u st =
     (if \<not> truthy k \<or> \<not> truthy v
      then Inl (Reply 400 (ErrorBody ''Missing key or value''))
      else
        (case getSession st sid of
           None \<Rightarrow> Inl (Reply 404 (ErrorBody ''Session not found''))
         | Some s \<Rightarrow>
             if or_empty k \<notin> set (pending (secrets s))
             then Inl (Reply 400 (ErrorBody ''Key already processed or not in pending list''))
             else
               (case verifyKeyAccess E u (or_empty k) s of
                  Inl e \<Rightarrow> Inl server_error
                | Inr hasAccess \<Rightarrow>
                    if \<not> hasAccess then Inl (Reply 403 (NotAuthorized (or_empty k)))
                    else
                      (case processSecretValue (lib E) iv (or_empty k) (or_empty v)
                              (buildEnv_of s) (or_empty (application_namespace (metadata s)))
                              (encKey (encryption s)) (keysToEncrypt (encryption s)) of
                         Inl e \<Rightarrow> Inl server_error
                       | Inr processedValue \<Rightarrow>
                           (let vaultUrl = url (vault s);
                                vaultToken = VAULT_TOKEN (metadata s)
                            in if \<not> truthy vaultUrl \<or> \<not> truthy vaultToken
                               then Inl (Reply 500 (ErrorBody ''Vault configuration missing''))
                               else
                                 (case fetchVaultPayload
                                         (vault_get E (or_empty vaultUrl) (or_empty vaultToken)) of
                                    Inl e \<Rightarrow> Inl server_error
                                  | Inr currentPayload \<Rightarrow>
                                      Inr \<lparr>adm_env = E, adm_sid = sid, adm_key = or_empty k,
                                           adm_value = processedValue,
                                           adm_login = login u\<rparr>))))))"

definition submit_commit :: "string \<Rightarrow> admitted \<Rightarrow> store \<Rightarrow> reply \<times> store \<times> effect list" where
  "submit_commit now a st =
     (case updateSessionSecret (adm_sid a) (adm_key a) (adm_value a) (adm_login a) now st of
        Inl e \<Rightarrow> (server_error, st, [])
      | Inr st1 \<Rightarrow>
          (case getSession st1 (adm_sid a) of
             None \<Rightarrow> (server_error, st1, [])
           | Some updatedSession \<Rightarrow>
               (let allCompleted = (status (metadata updatedSession) = Completed)
                in (Reply 200 (SecretUpdated (adm_key a) (pending (secrets updatedSession))
                                 allCompleted),
                    st1,
                    if allCompleted
                    then snd (triggerDownstreamWorkflow (adm_env a) now updatedSession)
                    else []))))"

text \<open>
  What happens in the process, one event at a time: a session is created, a submission
  arrives and runs its first half, or a waiting submission resumes and runs its second
  half. The second component of the state lists the submissions that wait.
\<close>

datatype event =
    Created string string workflow_metadata
  | Received env string string "string option" "string option" user
  | Resumed nat string     \<comment> \<open>the position in the list of waiting submissions, and the time\<close>

fun occur :: "event \<Rightarrow> store \<times> admitted list \<Rightarrow> store \<times> admitted list" where
  "occur (Created sid now md) (st, waiting) = (snd (createSession sid now md st), waiting)"
| "occur (Received E iv sid k v u) (st, waiting) =
     (case submit_admit E iv sid k v u st of
        Inl r \<Rightarrow> (st, waiting)
      | Inr a \<Rightarrow> (st, waiting @ [a]))"
| "occur (Resumed i now) (st, waiting) =
     (if i < length waiting
      then (fst (snd (submit_commit now (waiting ! i) st)), take i waiting @ drop (Suc i) waiting)
      else (st, waiting))"

definition happen :: "event list \<Rightarrow> store \<times> admitted list" where
  "happen evs = fold occur evs (empty_store, [])"


section \<open>Operations handled in turn\<close>

text \<open>
  A sequence of operations in which no two overlap: every submission is handled to its
  answer before the next operation begins, so that the whole handler is one step.
\<close>

datatype op =
    CreateSession string string workflow_metadata
  | SubmitSecret env string string string "string option" "string option" user



text \<open>The same sequence as events: each submission resumes right after it has arrived.\<close>

fun in_turn :: "op list \<Rightarrow> event list" where
  "in_turn [] = []"
| "in_turn (CreateSession sid now md # ops) = Created sid now md # in_turn ops"
| "in_turn (SubmitSecret E iv now sid k v u # ops) =
     Received E iv sid k v u # Resumed 0 now # in_turn ops"






section \<open>A key-value server, and sample inputs\<close>

text \<open>
  The Vault as the client sees it: a map from locations to the secrets stored there. A
  read of a location that holds nothing is answered with 404, and a \<open>VaultPost\<close>
  replaces what the location holds.
\<close>

type_synonym vault_contents = "string \<rightharpoonup> (string \<rightharpoonup> string)"

definition vault_answer :: "vault_contents \<Rightarrow> string \<Rightarrow> string \<Rightarrow> error + http_response" where
  "vault_answer V location token =
     (case V location of
        None \<Rightarrow> Inr \<lparr>resp_status = 404, resp_text = ''not found'', resp_json = None\<rparr>
      | Some m \<Rightarrow> Inr \<lparr>resp_status = 200, resp_text = [], resp_json = Some (Some (Some m))\<rparr>)"

fun vault_after :: "effect list \<Rightarrow> vault_contents \<Rightarrow> vault_contents" where
  "vault_after [] V = V"
| "vault_after (VaultPost location token m # es) V = vault_after es (V(location \<mapsto> m))"
| "vault_after (Dispatch r # es) V = vault_after es V"

text \<open>
  A stand-in for the \<open>crypto\<close> library, used where a statement is evaluated: the ciphers
  copy their input, and the tag is the first 16 bytes of the key.
\<close>

definition sample_crypto :: crypto where
  "sample_crypto =
     \<lparr>sha1_hex = (\<lambda>x. replicate 40 CHR ''0''),
      aes_cbc_encrypt = (\<lambda>k iv p. Some p),
      aes_gcm_encrypt = (\<lambda>k iv p. Some (p, take 16 k)),
      aes_gcm_decrypt = (\<lambda>k iv t c. if t = take 16 k then Some c else None)\<rparr>"

definition sample_env :: "vault_contents \<Rightarrow> env" where
  "sample_env V =
     \<lparr>lib = sample_crypto,
      vault_get = vault_answer V,
      vault_post = (\<lambda>location token m.
                      Inr \<lparr>resp_status = 200, resp_text = [], resp_json = Some None\<rparr>),
      membership = (\<lambda>token org team name. Inr True),
      github_post = (\<lambda>r. Inr \<lparr>resp_status = 204, resp_text = [], resp_json = None\<rparr>),
      secretTeamConfig = [(''*'', ''secret-admins'')],
      env_ORG_NAME = Some ''acme'',
      env_GH_BASE_URL = Some ''https://ghe.example/api/v3''\<rparr>"

definition sample_metadata :: "string \<Rightarrow> workflow_metadata" where
  "sample_metadata ks =
     \<lparr>run_id = Some ''4711'', wf_owner = None, wf_repository = None, wf_ref = None,
      secrets_needs_input = Some ks,
      build_env = Some ''PROD'', application_namespace = Some ''payments'',
      listOfKeysToBeEncrypted = None, encryption_key = Some ''k'',
      vault_url = Some ''https://vault.example/v1/kv/data/payments'',
      vault_engine = None, VAULT_TOKEN = Some ''vt'', GIT_TOKEN = None,
      ORG_NAME = None, GH_API = None\<rparr>"

text \<open>
  A session created for the one key \<open>db.password\<close> and completed by one submission, in
  the build environment \<open>b\<close> and with the dispatch token \<open>tok\<close>.
\<close>

definition completed_session :: "string \<Rightarrow> string option \<Rightarrow> session" where
  "completed_session b tok =
     apply_secret ''db.password'' ''alice'' ''t1''
       (new_session ''sess-1'' ''t0''
          ((sample_metadata ''db.password'')\<lparr>build_env := Some b, GIT_TOKEN := tok\<rparr>))"

definition alice :: user where
  "alice = \<lparr>login = ''alice'', accessToken = ''gho_1''\<rparr>"

definition iv0 :: string where
  "iv0 = replicate 16 (char_of (0::nat))"


section \<open>Facts about strings\<close>

lemma js_split_not_Nil: "js_split c s \<noteq> []"
  by (induction s) (auto split: list.splits)

lemma parse_keys_comma: "parse_keys '','' = []"
  by (simp add: parse_keys_def js_trim_def)

lemma parse_keys_one: "parse_keys ''db.password'' = [''db.password'']"
  by code_simp

lemma parse_keys_not_empty: "[] \<notin> set (parse_keys s)"
  by (simp add: parse_keys_def)


section \<open>The status of a session and its pending list\<close>

lemma new_session_status: "status (metadata (new_session sid now md)) = AwaitingInput"
  by (simp add: new_session_def Let_def workflow_metadata.defs)

lemma new_session_pending:
  "pending (secrets (new_session sid now md)) = parse_keys (or_empty (secrets_needs_input md))"
  by (simp add: new_session_def Let_def)

lemma createSession_stores:
  "sessions (snd (createSession sid now md st)) sid = Some (new_session sid now md)"
  by (simp add: createSession_def Let_def split: option.splits)

text \<open>
  After \<open>updateSessionSecret\<close> the status is \<open>completed\<close> exactly when the pending list is
  empty, whatever the session was before.
\<close>

lemma apply_secret_status_iff:
  "status (metadata (apply_secret k u now s)) = Completed
     \<longleftrightarrow> pending (secrets (apply_secret k u now s)) = []"
  by (simp add: apply_secret_def Let_def)

lemma updateSessionSecret_status_iff:
  assumes "updateSessionSecret sid k v u now st = Inr st1"
  shows "\<exists>s1. sessions st1 sid = Some s1
           \<and> (status (metadata s1) = Completed \<longleftrightarrow> pending (secrets s1) = [])"
proof (cases "sessions st sid")
  case None
  with assms show ?thesis by (simp add: updateSessionSecret_def)
next
  case (Some s)
  with assms have "sessions st1 sid = Some (apply_secret k u now s)"
    by (auto simp: updateSessionSecret_def)
  then show ?thesis using apply_secret_status_iff by blast
qed

text \<open>
  A session created from a list that names at least one key is \<open>awaiting_input\<close> with a
  pending list that is not empty.
\<close>

lemma new_session_status_iff:
  assumes "parse_keys (or_empty (secrets_needs_input md)) \<noteq> []"
  shows "status (metadata (new_session sid now md)) = Completed
           \<longleftrightarrow> pending (secrets (new_session sid now md)) = []"
  using assms by (simp add: new_session_status new_session_pending)

text \<open>
  Claim C1. The status of a session is \<open>completed\<close> exactly when its pending list is empty,
  right after creation and right after every submission. The registration handler
  accepts the key list \<open>","\<close>, which is not the empty string and names no key: the session
  it creates has an empty pending list and the status \<open>awaiting_input\<close>.
\<close>

theorem register_session_comma_awaits_input:
  "fst (register_session ''sess-1'' ''t0'' (sample_metadata '','') empty_store)
     = Reply 200 (SessionCreated ''sess-1'' 0)
   \<and> map_option (\<lambda>s. (pending (secrets s), status (metadata s)))
        (getSession (snd (register_session ''sess-1'' ''t0'' (sample_metadata '','') empty_store))
           ''sess-1'')
     = Some ([], AwaitingInput)"
  by (simp add: register_session_def createSession_def new_session_def sample_metadata_def
      truthy_def parse_keys_comma or_empty_def Let_def getSession_def empty_store_def
      workflow_metadata.defs split: prod.splits)


theorem register_session_comma_awaits_input_witness:
  "fst (register_session ''sess-1'' ''t0'' (sample_metadata '','') empty_store)
     = Reply 200 (SessionCreated ''sess-1'' 0)"
  using register_session_comma_awaits_input by (rule conjunct1)


section \<open>Hexadecimal text and the envelope\<close>

lemma of_char_hex_digit:
  "n < 16 \<Longrightarrow> (of_char (hex_digit n) :: nat) = (if n < 10 then 48 + n else 87 + n)"
  by (simp add: hex_digit_def)


lemma hex_digit_neq_colon: "n < 16 \<Longrightarrow> hex_digit n \<noteq> CHR '':''"
proof
  assume n: "n < 16" and "hex_digit n = CHR '':''"
  then have "(of_char (hex_digit n) :: nat) = of_char CHR '':''" by simp
  with n show False by (simp add: of_char_hex_digit split: if_splits)
qed

lemma hex_digit_neq_n: "n < 16 \<Longrightarrow> hex_digit n \<noteq> CHR ''n''"
proof
  assume n: "n < 16" and "hex_digit n = CHR ''n''"
  then have "(of_char (hex_digit n) :: nat) = of_char CHR ''n''" by simp
  with n show False by (simp add: of_char_hex_digit split: if_splits)
qed

lemma to_hex_Cons:
  "to_hex (b # bs) = hex_digit ((of_char b :: nat) div 16)
                     # hex_digit ((of_char b :: nat) mod 16) # to_hex bs"
  by (simp add: to_hex_def)

lemma colon_notin_to_hex: "CHR '':'' \<notin> set (to_hex bs)"
proof (induction bs)
  case Nil
  show ?case by (simp add: to_hex_def)
next
  case (Cons b bs)
  have "(of_char b :: nat) div 16 < 16"
    by (rule less_mult_imp_div_less) simp
  then have 1: "hex_digit ((of_char b :: nat) div 16) \<noteq> CHR '':''"
    by (rule hex_digit_neq_colon)
  have 2: "hex_digit ((of_char b :: nat) mod 16) \<noteq> CHR '':''"
    by (rule hex_digit_neq_colon) simp
  from Cons 1 2 show ?case
    by (auto simp: to_hex_Cons)
qed


lemma js_split_no_sep: "c \<notin> set s \<Longrightarrow> js_split c s = [s]"
  by (induction s) auto

lemma js_split_append: "c \<notin> set a \<Longrightarrow> js_split c (a @ c # rest) = a # js_split c rest"
  by (induction a) auto

lemma startsWith_append: "startsWith (p @ s) p"
  by (simp add: startsWith_def)

lemma envelope_split:
  "js_split CHR '':'' (''enc:'' @ to_hex iv @ '':'' @ to_hex t @ '':'' @ to_hex c)
     = [''enc'', to_hex iv, to_hex t, to_hex c]"
  by (simp add: js_split_append js_split_no_sep colon_notin_to_hex)

lemma pair_split:
  "js_split CHR '':'' (to_hex iv @ '':'' @ to_hex c) = [to_hex iv, to_hex c]"
  by (simp add: js_split_append js_split_no_sep colon_notin_to_hex)

lemma pair_not_prefixed: "\<not> startsWith (to_hex iv @ '':'' @ to_hex c) ''enc:''"
proof (cases iv)
  case Nil
  then show ?thesis by (simp add: startsWith_def to_hex_def)
next
  case (Cons b bs)
  have "hex_digit ((of_char b :: nat) mod 16) \<noteq> CHR ''n''"
    by (rule hex_digit_neq_n) simp
  with Cons show ?thesis by (simp add: startsWith_def to_hex_Cons)
qed




text \<open>
  Claim C5. The value the secret-encryption operation produces is the prefix \<open>enc\<close> and
  three hexadecimal fields (nonce, tag, ciphertext), separated by colons. This is the
  envelope of \<open>encryptValue\<close>. \<open>encryptSecret\<close>, which \<open>processSecretValue\<close> calls, returns two
  hexadecimal fields (nonce and ciphertext) with no prefix and no tag.
\<close>

theorem encryptSecret_envelope_counterexample:
  "encryptSecret sample_crypto iv0 ''s'' (Some ''k'') ''db.password''
     = Inr ''00000000000000000000000000000000:73''
   \<and> \<not> startsWith ''00000000000000000000000000000000:73'' ''enc:''
   \<and> js_split CHR '':'' ''00000000000000000000000000000000:73''
     = [''00000000000000000000000000000000'', ''73'']"
  by code_simp

text \<open>
  Claim C5, amended. \<open>encryptValue\<close> returns \<open>enc:\<close> followed by the nonce, the tag and
  the ciphertext in hexadecimal; \<open>encryptSecret\<close> returns the nonce and the ciphertext in
  hexadecimal, and never a text that starts with \<open>enc:\<close>.
\<close>

theorem envelope_shapes:
  "(encryptValue C K iv txt = Inr v \<longrightarrow>
      startsWith v ''enc:''
      \<and> (\<exists>k t c. K = Some k \<and> aes_gcm_encrypt C (key32 k) iv txt = Some (c, t)
            \<and> js_split CHR '':'' v = [''enc'', to_hex iv, to_hex t, to_hex c]))
   \<and> (encryptSecret C iv p ek sk = Inr w \<longrightarrow>
      \<not> startsWith w ''enc:''
      \<and> (\<exists>k c. ek = Some k \<and> aes_cbc_encrypt C (key32 k) iv p = Some c
            \<and> js_split CHR '':'' w = [to_hex iv, to_hex c]))"
proof (intro conjI impI)
  assume a: "encryptValue C K iv txt = Inr v"
  then obtain k t c where k: "K = Some k" and e: "aes_gcm_encrypt C (key32 k) iv txt = Some (c, t)"
    and v: "v = ''enc:'' @ to_hex iv @ '':'' @ to_hex t @ '':'' @ to_hex c"
    by (auto simp: encryptValue_def getEncryptionKey_def split: option.splits sum.splits)
  show "startsWith v ''enc:''" unfolding v by (rule startsWith_append)
  show "\<exists>k t c. K = Some k \<and> aes_gcm_encrypt C (key32 k) iv txt = Some (c, t)
            \<and> js_split CHR '':'' v = [''enc'', to_hex iv, to_hex t, to_hex c]"
    using k e envelope_split unfolding v by blast
next
  assume a: "encryptSecret C iv p ek sk = Inr w"
  then obtain k c where k: "ek = Some k" and e: "aes_cbc_encrypt C (key32 k) iv p = Some c"
    and w: "w = to_hex iv @ '':'' @ to_hex c"
    by (auto simp: encryptSecret_def split: option.splits)
  show "\<not> startsWith w ''enc:''" unfolding w by (rule pair_not_prefixed)
  show "\<exists>k c. ek = Some k \<and> aes_cbc_encrypt C (key32 k) iv p = Some c
            \<and> js_split CHR '':'' w = [to_hex iv, to_hex c]"
    using k e pair_split unfolding w by blast
qed

theorem envelope_shapes_witness:
  "startsWith ''enc:00000000000000000000000000000000:6b000000000000000000000000000000:73'' ''enc:''
   \<and> \<not> startsWith ''00000000000000000000000000000000:73'' ''enc:''"
proof -
  have 1: "encryptValue sample_crypto (Some ''k'') iv0 ''s''
        = Inr ''enc:00000000000000000000000000000000:6b000000000000000000000000000000:73''"
    by code_simp
  have 2: "encryptSecret sample_crypto iv0 ''s'' (Some ''k'') ''db.password''
     = Inr ''00000000000000000000000000000000:73''"
    by code_simp
  show ?thesis
    using envelope_shapes [of sample_crypto "Some ''k''" iv0 "''s''"
        "''enc:00000000000000000000000000000000:6b000000000000000000000000000000:73''"
        "''s''" "Some ''k''" "''db.password''" "''00000000000000000000000000000000:73''"] 1 2
    by blast
qed


section \<open>The decision table of \<open>processSecretValue\<close>\<close>

text \<open>
  Claim C6. \<open>processSecretValue\<close> tries its rules in this order: the key-store password
  in \<open>hodc\<close> or \<open>pcdc\<close> gives the hash of the namespace; the encryption-key identifier gives
  the session's encryption key; a key of the encryption list gives what \<open>encryptSecret\<close>
  returns; any other key gives the plaintext. The first two conjuncts hold whether or
  not the key is in the encryption list.
\<close>

theorem processSecretValue_order:
  "(k = ''app.key-store-password'' \<and> (b = ''hodc'' \<or> b = ''pcdc'')
      \<longrightarrow> processSecretValue C iv k p b ns ek ks = Inr (Some (generateHash C (ns @ ''-jks''))))
   \<and> (\<not> (k = ''app.key-store-password'' \<and> (b = ''hodc'' \<or> b = ''pcdc''))
        \<and> k = ''app-config.secret-encryption.encryption-key''
      \<longrightarrow> processSecretValue C iv k p b ns ek ks = Inr ek)
   \<and> (\<not> (k = ''app.key-store-password'' \<and> (b = ''hodc'' \<or> b = ''pcdc''))
        \<and> k \<noteq> ''app-config.secret-encryption.encryption-key'' \<and> k \<in> set ks
      \<longrightarrow> processSecretValue C iv k p b ns ek ks
            = map_sum id Some (encryptSecret C iv p ek k))
   \<and> (\<not> (k = ''app.key-store-password'' \<and> (b = ''hodc'' \<or> b = ''pcdc''))
        \<and> k \<noteq> ''app-config.secret-encryption.encryption-key'' \<and> k \<notin> set ks
      \<longrightarrow> processSecretValue C iv k p b ns ek ks = Inr (Some p))"
  by (auto simp: processSecretValue_def split: sum.splits)

theorem processSecretValue_order_witness:
  "processSecretValue sample_crypto iv0 ''app.key-store-password'' ''typed'' ''hodc'' ''payments''
      (Some ''k'') [''app.key-store-password'']
     = Inr (Some (generateHash sample_crypto ''payments-jks''))
   \<and> processSecretValue sample_crypto iv0 ''app-config.secret-encryption.encryption-key''
        ''typed'' ''sit'' ''payments'' (Some ''k'')
        [''app-config.secret-encryption.encryption-key'']
     = Inr (Some ''k'')
   \<and> processSecretValue sample_crypto iv0 ''db.password'' ''typed'' ''sit'' ''payments''
        (Some ''k'') [''db.password'']
     = map_sum id Some (encryptSecret sample_crypto iv0 ''typed'' (Some ''k'') ''db.password'')
   \<and> processSecretValue sample_crypto iv0 ''db.user'' ''typed'' ''sit'' ''payments''
        (Some ''k'') [''db.password'']
     = Inr (Some ''typed'')"
  using processSecretValue_order [of "''app.key-store-password''" "''hodc''" sample_crypto iv0
          "''typed''" "''payments''" "Some ''k''" "[''app.key-store-password'']"]
        processSecretValue_order [of "''app-config.secret-encryption.encryption-key''" "''sit''"
          sample_crypto iv0 "''typed''" "''payments''" "Some ''k''"
          "[''app-config.secret-encryption.encryption-key'']"]
        processSecretValue_order [of "''db.password''" "''sit''" sample_crypto iv0
          "''typed''" "''payments''" "Some ''k''" "[''db.password'']"]
        processSecretValue_order [of "''db.user''" "''sit''" sample_crypto iv0
          "''typed''" "''payments''" "Some ''k''" "[''db.password'']"]
  by simp


section \<open>Decryption never fails its caller\<close>

text \<open>
  Claim C7. \<open>decryptValue\<close> never raises. It returns its argument unchanged when the
  argument does not start with \<open>enc:\<close>, when it does not split into four fields, and
  whenever anything inside the \<open>try\<close> block throws: a missing key, a nonce or tag the
  library refuses, a failed authentication.
\<close>

theorem decryptValue_never_raises:
  "(\<exists>r. decryptValue C K s = Inr r)
   \<and> (\<not> startsWith s ''enc:'' \<longrightarrow> decryptValue C K s = Inr s)
   \<and> (length (js_split CHR '':'' s) \<noteq> 4 \<longrightarrow> decryptValue C K s = Inr s)
   \<and> (decryptValue_try C K s = Inl e \<longrightarrow> decryptValue C K s = Inr s)
   \<and> (K = Some k
        \<and> aes_gcm_decrypt C (key32 k) (from_hex (js_split CHR '':'' s ! 1))
             (from_hex (js_split CHR '':'' s ! 2)) (from_hex (js_split CHR '':'' s ! 3)) = None
      \<longrightarrow> decryptValue C K s = Inr s)"
  by (auto simp: decryptValue_def decryptValue_try_def getEncryptionKey_def Let_def
      split: sum.splits option.splits)

theorem decryptValue_never_raises_witness:
  "(\<exists>r. decryptValue sample_crypto (Some ''k'') ''enc:00:11:22'' = Inr r)
   \<and> decryptValue sample_crypto (Some ''k'') ''hunter2'' = Inr ''hunter2''
   \<and> decryptValue sample_crypto (Some ''k'') ''enc:0011'' = Inr ''enc:0011''
   \<and> decryptValue sample_crypto None ''enc:00:11:22'' = Inr ''enc:00:11:22''
   \<and> decryptValue sample_crypto (Some ''k'') ''enc:00:11:22'' = Inr ''enc:00:11:22''"
proof -
  have a: "\<not> startsWith ''hunter2'' ''enc:''" by (simp add: startsWith_def)
  have b: "length (js_split CHR '':'' ''enc:0011'') \<noteq> 4" by simp
  have c: "decryptValue_try sample_crypto None ''enc:00:11:22'' = Inl TypeError"
    by (simp add: decryptValue_try_def startsWith_def getEncryptionKey_def)
  have d: "Some ''k'' = Some ''k''
        \<and> aes_gcm_decrypt sample_crypto (key32 ''k'') (from_hex (js_split CHR '':'' ''enc:00:11:22'' ! 1))
             (from_hex (js_split CHR '':'' ''enc:00:11:22'' ! 2))
             (from_hex (js_split CHR '':'' ''enc:00:11:22'' ! 3)) = None"
    by (simp add: sample_crypto_def key32_def hex_val_def)
  show ?thesis
    using decryptValue_never_raises [of sample_crypto "Some ''k''" "''enc:00:11:22''" TypeError "''k''"]
      decryptValue_never_raises [of sample_crypto "Some ''k''" "''hunter2''" TypeError "''k''"]
      decryptValue_never_raises [of sample_crypto "Some ''k''" "''enc:0011''" TypeError "''k''"]
      decryptValue_never_raises [of sample_crypto None "''enc:00:11:22''" TypeError "''k''"]
      a b c d
    by blast
qed


section \<open>Reading the backing store\<close>

text \<open>
  Claim C9. Among the responses that are not \<open>ok\<close>, \<open>fetchVaultPayload\<close> returns the empty
  set of secrets exactly for status 404, and for every other status it fails with an error
  that carries the status and the body of the response.
\<close>

theorem fetchVaultPayload_404_is_empty:
  "(resp_status r = 404 \<longrightarrow> fetchVaultPayload (Inr r) = Inr (Some (Some Map.empty)))
   \<and> (\<not> ok r \<and> resp_status r \<noteq> 404
        \<longrightarrow> fetchVaultPayload (Inr r) = Inl (VaultFetchFailed (resp_status r) (resp_text r)))
   \<and> (\<not> ok r \<longrightarrow>
         (fetchVaultPayload (Inr r) = Inr (Some (Some Map.empty)) \<longleftrightarrow> resp_status r = 404))"
  by (auto simp: fetchVaultPayload_def ok_def)

theorem fetchVaultPayload_404_is_empty_witness:
  "fetchVaultPayload (Inr \<lparr>resp_status = 404, resp_text = ''no such path'', resp_json = None\<rparr>)
     = Inr (Some (Some Map.empty))
   \<and> fetchVaultPayload (Inr \<lparr>resp_status = 503, resp_text = ''sealed'', resp_json = None\<rparr>)
     = Inl (VaultFetchFailed 503 ''sealed'')"
  using fetchVaultPayload_404_is_empty
          [of "\<lparr>resp_status = 404, resp_text = ''no such path'', resp_json = None\<rparr>"]
        fetchVaultPayload_404_is_empty
          [of "\<lparr>resp_status = 503, resp_text = ''sealed'', resp_json = None\<rparr>"]
  by (simp add: ok_def)


section \<open>The downstream trigger\<close>

text \<open>
  Claim C10. For a completed session whose build environment has no downstream job, the
  trigger returns a skipped result and raises no error. The check of the dispatch token
  comes first in the source: a session without \<open>GIT_TOKEN\<close> makes the trigger throw,
  whatever its build environment.
\<close>

theorem triggerDownstreamWorkflow_without_token_counterexample:
  "status (metadata (completed_session ''PROD'' None)) = Completed
   \<and> buildEnv_of (completed_session ''PROD'' None) = ''prod''
   \<and> triggerDownstreamWorkflow (sample_env Map.empty) ''t2'' (completed_session ''PROD'' None)
     = (Inl GitTokenNotAvailable, [])"
proof -
  have 1: "status (metadata (completed_session ''PROD'' None)) = Completed"
    by code_simp
  have 2: "buildEnv_of (completed_session ''PROD'' None) = ''prod''"
    by code_simp
  have "GIT_TOKEN (metadata (completed_session ''PROD'' None)) = None"
    by code_simp
  then have 3: "triggerDownstreamWorkflow (sample_env Map.empty) ''t2''
                  (completed_session ''PROD'' None) = (Inl GitTokenNotAvailable, [])"
    by (simp add: triggerDownstreamWorkflow_def Let_def truthy_def)
  from 1 2 3 show ?thesis by simp
qed

text \<open>
  Claim C10, amended. For a session that carries a \<open>GIT_TOKEN\<close>: when the lower-cased
  build environment is neither \<open>dev\<close> nor \<open>sit\<close>, the trigger returns the skipped result
  with its reason and sends nothing; when it is \<open>dev\<close> or \<open>sit\<close> and a base URL is known,
  the trigger sends exactly one dispatch, whose payload is the session's metadata with
  the status \<open>completed\<close>, the audit log, and the statistics with \<open>pending = 0\<close>.
\<close>

theorem triggerDownstreamWorkflow_skips_or_dispatches:
  assumes "truthy (GIT_TOKEN (metadata s))"
  shows "(buildEnv_of s \<noteq> ''dev'' \<and> buildEnv_of s \<noteq> ''sit'' \<longrightarrow>
            triggerDownstreamWorkflow E now s
              = (Inr (Skipped (''No downstream workflow configured for build_env='' @ buildEnv_of s)),
                 []))
       \<and> ((buildEnv_of s = ''dev'' \<or> buildEnv_of s = ''sit'')
            \<and> truthy (js_or (GH_API (metadata s)) (env_GH_BASE_URL E)) \<longrightarrow>
            (\<exists>r. snd (triggerDownstreamWorkflow E now s) = [Dispatch r]
                 \<and> dr_token r = or_empty (GIT_TOKEN (metadata s))
                 \<and> dp_metadata (dr_payload r) = (metadata s)\<lparr>status := Completed\<rparr>
                 \<and> dp_audit (dr_payload r) = audit s
                 \<and> dp_total (dr_payload r)
                     = length (completed (secrets s)) + length (pending (secrets s))
                 \<and> dp_completed (dr_payload r) = length (completed (secrets s))
                 \<and> dp_pending (dr_payload r) = 0))"
  using assms
  by (auto simp: triggerDownstreamWorkflow_def Let_def updatedPayload_def)

theorem triggerDownstreamWorkflow_skips_or_dispatches_witness:
  "triggerDownstreamWorkflow (sample_env Map.empty) ''t2'' (completed_session ''PROD'' (Some ''ghp_1''))
     = (Inr (Skipped ''No downstream workflow configured for build_env=prod''), [])
   \<and> (\<exists>r. snd (triggerDownstreamWorkflow (sample_env Map.empty) ''t2''
                  (completed_session ''SIT'' (Some ''ghp_1''))) = [Dispatch r]
          \<and> dp_total (dr_payload r) = 1 \<and> dp_completed (dr_payload r) = 1
          \<and> dp_pending (dr_payload r) = 0)"
proof -
  have t: "truthy (GIT_TOKEN (metadata (completed_session b (Some ''ghp_1''))))" for b
    by (simp add: completed_session_def apply_secret_def new_session_def Let_def truthy_def
        workflow_metadata.defs sample_metadata_def)
  have p: "buildEnv_of (completed_session ''PROD'' (Some ''ghp_1'')) = ''prod''"
    by code_simp
  have s: "buildEnv_of (completed_session ''SIT'' (Some ''ghp_1'')) = ''sit''"
    by code_simp
  have u: "truthy (js_or (GH_API (metadata (completed_session ''SIT'' (Some ''ghp_1''))))
             (env_GH_BASE_URL (sample_env Map.empty)))"
    by code_simp
  have n: "length (completed (secrets (completed_session ''SIT'' (Some ''ghp_1'')))) = 1"
          "length (pending (secrets (completed_session ''SIT'' (Some ''ghp_1'')))) = 0"
    by code_simp+
  show ?thesis
    using triggerDownstreamWorkflow_skips_or_dispatches
            [OF t, of "''PROD''" "sample_env Map.empty" "''t2''"]
          triggerDownstreamWorkflow_skips_or_dispatches
            [OF t, of "''SIT''" "sample_env Map.empty" "''t2''"]
          p s u n
    by auto
qed


section \<open>Submissions that are rejected\<close>

text \<open>
  Claim C3. A submission for a key that is not pending fails and changes nothing, and a
  submission for an unknown session fails with \<open>NotFound\<close>. The handler checks the
  presence of the key and of the value before it looks the session up: a submission
  with an empty value for an unknown session is answered with status 400.
\<close>

theorem submit_secret_without_value_counterexample:
  "fst (submit_secret (sample_env Map.empty) iv0 ''t1'' ''sess-404'' (Some ''db.password'') (Some [])
          alice empty_store)
     = Reply 400 (ErrorBody ''Missing key or value'')"
  by (simp add: submit_secret_def truthy_def)

text \<open>
  Claim C3, amended. A submission for an unknown session, or for a key that is not in
  the pending list of its session, leaves the store as it was and sends no request.
  When the key and the value are both present, the answer is 404 \<open>Session not found\<close>
  for an unknown session, and 400 \<open>Key already processed or not in pending list\<close> for a
  key that is not pending; when either is missing, the answer is 400
  \<open>Missing key or value\<close>.
\<close>

theorem submit_secret_not_pending_rejected:
  "((getSession st sid = None
      \<or> (\<exists>s. getSession st sid = Some s \<and> or_empty k \<notin> set (pending (secrets s))))
      \<longrightarrow> snd (submit_secret E iv now sid k v u st) = (st, []))
   \<and> (truthy k \<and> truthy v \<and> getSession st sid = None
      \<longrightarrow> fst (submit_secret E iv now sid k v u st) = Reply 404 (ErrorBody ''Session not found''))
   \<and> (truthy k \<and> truthy v \<and> getSession st sid = Some s
        \<and> or_empty k \<notin> set (pending (secrets s))
      \<longrightarrow> fst (submit_secret E iv now sid k v u st)
            = Reply 400 (ErrorBody ''Key already processed or not in pending list''))
   \<and> (\<not> (truthy k \<and> truthy v)
      \<longrightarrow> submit_secret E iv now sid k v u st
            = (Reply 400 (ErrorBody ''Missing key or value''), st, []))"
  by (auto simp: submit_secret_def)

theorem submit_secret_not_pending_rejected_witness:
  "submit_secret (sample_env Map.empty) iv0 ''t1'' ''sess-404'' (Some ''db.password'')
      (Some ''hunter2'') alice empty_store
     = (Reply 404 (ErrorBody ''Session not found''), empty_store, [])
   \<and> submit_secret (sample_env Map.empty) iv0 ''t1'' ''sess-1'' (Some ''api.key'')
        (Some ''hunter2'') alice
        (snd (createSession ''sess-1'' ''t0'' (sample_metadata ''db.password'') empty_store))
     = (Reply 400 (ErrorBody ''Key already processed or not in pending list''),
        snd (createSession ''sess-1'' ''t0'' (sample_metadata ''db.password'') empty_store), [])"
proof -
  let ?st = "snd (createSession ''sess-1'' ''t0'' (sample_metadata ''db.password'') empty_store)"
  let ?s = "new_session ''sess-1'' ''t0'' (sample_metadata ''db.password'')"
  have t: "truthy (Some ''db.password'')" "truthy (Some ''api.key'')" "truthy (Some ''hunter2'')"
    by (simp_all add: truthy_def)
  have n: "getSession empty_store ''sess-404'' = None"
    by (simp add: getSession_def empty_store_def)
  have g: "getSession ?st ''sess-1'' = Some ?s"
    by (simp add: getSession_def createSession_stores)
  have "pending (secrets ?s) = [''db.password'']"
    by (simp add: new_session_pending sample_metadata_def or_empty_def parse_keys_one)
  then have k: "or_empty (Some ''api.key'') \<notin> set (pending (secrets ?s))"
    by (simp add: or_empty_def)
  show ?thesis
    using submit_secret_not_pending_rejected
            [of empty_store "''sess-404''" "Some ''db.password''" "sample_env Map.empty" iv0
               "''t1''" "Some ''hunter2''" alice ?s]
          submit_secret_not_pending_rejected
            [of ?st "''sess-1''" "Some ''api.key''" "sample_env Map.empty" iv0
               "''t1''" "Some ''hunter2''" alice ?s]
          t n g k
    by (auto simp: prod_eq_iff)
qed



section \<open>What a submission does outside the process\<close>

lemma or_empty_Some: "or_empty (Some s) = s"
  by (simp add: or_empty_def)

lemma sample_pending:
  "pending (secrets (new_session ''sess-1'' ''t0'' (sample_metadata ''db.password'')))
     = [''db.password'']"
  by (simp add: new_session_pending sample_metadata_def or_empty_def parse_keys_one)

lemma trigger_effects:
  "snd (triggerDownstreamWorkflow E now s) = []
   \<or> (\<exists>r. snd (triggerDownstreamWorkflow E now s) = [Dispatch r])"
  by (simp add: triggerDownstreamWorkflow_def Let_def)

lemma submit_secret_cases:
  "snd (submit_secret E iv now sid k v u st) = (st, [])
   \<or> (\<exists>s. sessions st sid = Some s \<and> or_empty k \<in> set (pending (secrets s))
          \<and> fst (snd (submit_secret E iv now sid k v u st))
              = st\<lparr>sessions := (sessions st)(sid \<mapsto> apply_secret (or_empty k) (login u) now s)\<rparr>
          \<and> (snd (snd (submit_secret E iv now sid k v u st)) = []
              \<or> (\<exists>r. snd (snd (submit_secret E iv now sid k v u st)) = [Dispatch r])))"
proof (cases "sessions st sid")
  case None
  then show ?thesis by (simp add: submit_secret_def getSession_def)
next
  case (Some s)
  show ?thesis
  proof (cases "or_empty k \<in> set (pending (secrets s))")
    case False
    with Some show ?thesis by (simp add: submit_secret_def getSession_def)
  next
    case True
    have "snd (triggerDownstreamWorkflow E now x) = []
            \<or> (\<exists>r. snd (triggerDownstreamWorkflow E now x) = [Dispatch r])" for x
      by (rule trigger_effects)
    with Some True show ?thesis
      by (auto simp: submit_secret_def getSession_def updateSessionSecret_def Let_def
          split: sum.splits option.splits)
  qed
qed

text \<open>
  The handler sends no request that changes the Vault, whatever it is given;
  \<open>updateSingleVaultKey\<close>, which it does not call, sends the one that stores the value.
\<close>

lemma vault_after_submit:
  "vault_after (snd (snd (submit_secret E iv now sid k v u st))) V = V"
  using submit_secret_cases [of E iv now sid k v u st] by auto

lemma updateSingleVaultKey_stores:
  assumes "fetchVaultPayload (vault_get E l t) = Inr p"
  shows "\<exists>m. vault_after (snd (updateSingleVaultKey E l t k v)) V l = Some m \<and> m k = Some v"
  using assms by (simp add: updateSingleVaultKey_def Let_def)

lemma sample_submit:
  "submit_secret (sample_env Map.empty) iv0 ''t1'' ''sess-1'' (Some ''db.password'')
      (Some ''hunter2'') alice
      (snd (createSession ''sess-1'' ''t0'' (sample_metadata ''db.password'') empty_store))
     = (Reply 200 (SecretUpdated ''db.password'' [] True),
        (snd (createSession ''sess-1'' ''t0'' (sample_metadata ''db.password'') empty_store))
          \<lparr>sessions :=
             (sessions (snd (createSession ''sess-1'' ''t0'' (sample_metadata ''db.password'')
                              empty_store)))
               (''sess-1'' \<mapsto> apply_secret ''db.password'' ''alice'' ''t1''
                                (new_session ''sess-1'' ''t0'' (sample_metadata ''db.password'')))\<rparr>,
        [])"
proof -
  let ?st = "snd (createSession ''sess-1'' ''t0'' (sample_metadata ''db.password'') empty_store)"
  let ?s = "new_session ''sess-1'' ''t0'' (sample_metadata ''db.password'')"
  have g: "getSession ?st ''sess-1'' = Some ?s"
    by (simp add: getSession_def createSession_stores)
  have a: "verifyKeyAccess (sample_env Map.empty) alice ''db.password'' ?s = Inr True"
    by (simp add: verifyKeyAccess_def resolveTeamForSecret_def sample_env_def js_or_def
        truthy_def or_empty_def new_session_def sample_metadata_def Let_def
        workflow_metadata.defs)
  have p: "processSecretValue (lib (sample_env Map.empty)) iv0 ''db.password'' ''hunter2''
             (buildEnv_of ?s) (or_empty (application_namespace (metadata ?s)))
             (encKey (encryption ?s)) (keysToEncrypt (encryption ?s)) = Inr (Some ''hunter2'')"
    by (simp add: processSecretValue_def new_session_def sample_metadata_def Let_def)
  have f: "fetchVaultPayload (vault_get (sample_env Map.empty)
             ''https://vault.example/v1/kv/data/payments'' ''vt'') = Inr (Some (Some Map.empty))"
    by (simp add: fetchVaultPayload_def sample_env_def vault_answer_def ok_def)
  have v: "url (vault ?s) = Some ''https://vault.example/v1/kv/data/payments''"
          "VAULT_TOKEN (metadata ?s) = Some ''vt''"
    by (simp_all add: new_session_def sample_metadata_def Let_def workflow_metadata.defs)
  have u: "sessions ?st ''sess-1'' = Some ?s"
    by (rule createSession_stores)
  have l: "login alice = ''alice''"
    by (simp add: alice_def)
  have c: "pending (secrets (apply_secret ''db.password'' ''alice'' ''t1'' ?s)) = []"
          "status (metadata (apply_secret ''db.password'' ''alice'' ''t1'' ?s)) = Completed"
    by (simp_all add: apply_secret_def Let_def sample_pending)
  have "GIT_TOKEN (metadata (apply_secret ''db.password'' ''alice'' ''t1'' ?s)) = None"
    by (simp add: apply_secret_def Let_def new_session_def sample_metadata_def
        workflow_metadata.defs)
  then have t: "snd (triggerDownstreamWorkflow (sample_env Map.empty) ''t1''
                  (apply_secret ''db.password'' ''alice'' ''t1'' ?s)) = []"
    by (simp add: triggerDownstreamWorkflow_def Let_def truthy_def)
  show ?thesis
    unfolding submit_secret_def
    by (simp add: g a p f v u c l t sample_pending truthy_def or_empty_Some
        updateSessionSecret_def getSession_def)
qed

text \<open>
  Claim C8. A successful submission merges the processed value into the contents of the
  backing store, which holds the value under the submitted key afterwards. Here the
  store holds nothing at the session's location, the submission of \<open>db.password\<close> is
  answered with status 200 and completes the session, and the location still holds
  nothing.
\<close>

theorem submit_secret_leaves_vault_untouched:
  "fst (submit_secret (sample_env Map.empty) iv0 ''t1'' ''sess-1'' (Some ''db.password'')
          (Some ''hunter2'') alice
          (snd (createSession ''sess-1'' ''t0'' (sample_metadata ''db.password'') empty_store)))
     = Reply 200 (SecretUpdated ''db.password'' [] True)
   \<and> vault_after
        (snd (snd (submit_secret (sample_env Map.empty) iv0 ''t1'' ''sess-1'' (Some ''db.password'')
          (Some ''hunter2'') alice
          (snd (createSession ''sess-1'' ''t0'' (sample_metadata ''db.password'') empty_store)))))
        Map.empty ''https://vault.example/v1/kv/data/payments''
     = None"
  by (simp add: sample_submit)

theorem submit_secret_leaves_vault_untouched_witness:
  "fst (submit_secret (sample_env Map.empty) iv0 ''t1'' ''sess-1'' (Some ''db.password'')
          (Some ''hunter2'') alice
          (snd (createSession ''sess-1'' ''t0'' (sample_metadata ''db.password'') empty_store)))
     = Reply 200 (SecretUpdated ''db.password'' [] True)"
  using submit_secret_leaves_vault_untouched by (rule conjunct1)


section \<open>Pending and completed keys\<close>















end
